theory Spec2Isabelle
  imports Main
begin

section \<open>fetch-games.py: the asset fetcher of app13.info\<close>

text \<open>
  The script resolves each game identifier (a slug) to a catalog record of the Flashpoint
  database, downloads the record's launch URL directly, falls back to the Wayback Machine,
  and stores the body under \<^verbatim>\<open>games/<slug>.swf\<close> when it carries an SWF header.

  Python \<^verbatim>\<open>str\<close> and \<^verbatim>\<open>bytes\<close> values are both lists of \<^typ>\<open>char\<close> (one
  byte each). Text is read as ASCII: the case conversions change the letters
  \<^verbatim>\<open>A-Z\<close> and \<^verbatim>\<open>a-z\<close> only and carry every other byte unchanged.
\<close>

subsection \<open>Strings\<close>

type_synonym bytes = "char list"

definition is_upper :: "char \<Rightarrow> bool" where
  "is_upper c = (c \<in> set ''ABCDEFGHIJKLMNOPQRSTUVWXYZ'')"

definition is_lower :: "char \<Rightarrow> bool" where
  "is_lower c = (c \<in> set ''abcdefghijklmnopqrstuvwxyz'')"

definition is_digit :: "char \<Rightarrow> bool" where
  "is_digit c = (c \<in> set ''0123456789'')"

definition to_lower :: "char \<Rightarrow> char" where
  "to_lower c =
     (case map_of (zip ''ABCDEFGHIJKLMNOPQRSTUVWXYZ'' ''abcdefghijklmnopqrstuvwxyz'') c of
        Some d \<Rightarrow> d
      | None \<Rightarrow> c)"

definition to_upper :: "char \<Rightarrow> char" where
  "to_upper c =
     (case map_of (zip ''abcdefghijklmnopqrstuvwxyz'' ''ABCDEFGHIJKLMNOPQRSTUVWXYZ'') c of
        Some d \<Rightarrow> d
      | None \<Rightarrow> c)"

text \<open>\<^verbatim>\<open>s.lower()\<close>\<close>

definition lower :: "string \<Rightarrow> string" where
  "lower s = map to_lower s"

text \<open>\<^verbatim>\<open>s.replace(a, b)\<close> for one-character \<^verbatim>\<open>a\<close> and \<^verbatim>\<open>b\<close>.\<close>

definition replace_char :: "char \<Rightarrow> char \<Rightarrow> string \<Rightarrow> string" where
  "replace_char a b s = map (\<lambda>c. if c = a then b else c) s"

text \<open>
  \<^verbatim>\<open>s.title()\<close>. CPython walks the string with one flag, "the previous character is
  cased": a lowercase letter after an uncased character is capitalised, an uppercase
  letter after a cased one is lowered, and an uncased character (a digit, a space, any
  punctuation) clears the flag. A word is therefore a maximal run of letters.
\<close>

fun title_from :: "bool \<Rightarrow> string \<Rightarrow> string" where
  "title_from previous_is_cased [] = []"
| "title_from previous_is_cased (c # cs) =
     (if is_lower c then
        (if previous_is_cased then c else to_upper c) # title_from True cs
      else if is_upper c then
        (if previous_is_cased then to_lower c else c) # title_from True cs
      else c # title_from False cs)"

definition title :: "string \<Rightarrow> string" where
  "title s = title_from False s"

text \<open>\<^verbatim>\<open>s.startswith(p)\<close>\<close>

definition startswith :: "string \<Rightarrow> string \<Rightarrow> bool" where
  "startswith s p = (take (length p) s = p)"

text \<open>\<^verbatim>\<open>sub in s\<close> on strings: \<^verbatim>\<open>sub\<close> occurs as a contiguous piece of \<^verbatim>\<open>s\<close>.\<close>

fun contains :: "string \<Rightarrow> string \<Rightarrow> bool" where
  "contains sub [] = (sub = [])"
| "contains sub (c # cs) = (startswith (c # cs) sub \<or> contains sub cs)"

subsection \<open>Binary validator\<close>

text \<open>
  \<^verbatim>\<open>is_valid_swf(data)\<close>: \<^verbatim>\<open>data\<close> is what \<^verbatim>\<open>http_get\<close> returned, \<^verbatim>\<open>None\<close> or the
  body. \<^verbatim>\<open>not data\<close> holds for \<^verbatim>\<open>None\<close> and for the empty body.
\<close>

definition is_valid_swf :: "bytes option \<Rightarrow> bool" where
  "is_valid_swf data =
     (case data of
        None \<Rightarrow> False
      | Some b \<Rightarrow>
          if b = [] \<or> length b < 8 then False
          else take 3 b \<in> set [''FWS'', ''CWS'', ''ZWS''])"

subsection \<open>Identifier normalizer\<close>

definition TITLE_OVERRIDES_items :: "(string \<times> string) list" where
  "TITLE_OVERRIDES_items =
   [(''14303_vrdefendery3k'', ''VR Defender Y3K''),
    (''1048_castle'', ''1048 Castle''),
    (''alien-hominid'', ''Alien Hominid''),
    (''bot-arena-2'', ''Bot Arena 2''),
    (''bow-master-prelude'', ''Bow Master Prelude''),
    (''bubble-tanks-2'', ''Bubble Tanks 2''),
    (''bunny-invasion-2'', ''Bunny Invasion 2''),
    (''copter'', ''Helicopter Game''),
    (''crush-the-castle'', ''Crush the Castle''),
    (''d-fence-2'', ''D-Fence 2''),
    (''defend-your-castle'', ''Defend Your Castle''),
    (''demonic-defence-3'', ''Demonic Defence 3''),
    (''dolphin-olympics-2'', ''Dolphin Olympics 2''),
    (''double-wires'', ''Double Wires''),
    (''fancy-pants-adventure'', ''The Fancy Pants Adventures''),
    (''fancy-pants-adventure-2'', ''The Fancy Pants Adventures: World 2''),
    (''gem-tower-defense'', ''Gem Tower Defense''),
    (''gravity-game'', ''Gravity Game''),
    (''gunmaster-jungle'', ''Gunmaster Jungle''),
    (''hot-air-baloons'', ''Hot Air Balloon''),
    (''interactive-buddy'', ''Interactive Buddy''),
    (''line-rider-beta-2'', ''Line Rider''),
    (''the-last-stand-2'', ''The Last Stand 2''),
    (''madness-accelerant'', ''Madness Accelerant''),
    (''max-dirtbike'', ''Max Dirt Bike''),
    (''me2d-game'', ''ME2D''),
    (''missile-game-3d'', ''Missile Game 3D''),
    (''n-ninja'', ''N (The Way of the Ninja)''),
    (''pet-protector-2'', ''Pet Protector 2''),
    (''phage-wars'', ''Phage Wars''),
    (''portal'', ''Portal: The Flash Version''),
    (''raiden-x'', ''Raiden X''),
    (''realm-of-the-mad-god'', ''Realm of the Mad God''),
    (''sonny-2'', ''Sonny 2''),
    (''stick-strike'', ''Stick Strike''),
    (''super-mario-flash'', ''Super Mario Flash''),
    (''super-smash-flash'', ''Super Smash Flash''),
    (''bloons-tower-defense-3'', ''Bloons Tower Defense 3''),
    (''bloons-tower-defense-4'', ''Bloons Tower Defense 4'')]"

text \<open>The dictionary: the keys of the literal are pairwise different.\<close>

definition TITLE_OVERRIDES :: "string \<rightharpoonup> string" where
  "TITLE_OVERRIDES = map_of TITLE_OVERRIDES_items"

definition slug_to_title :: "string \<Rightarrow> string" where
  "slug_to_title slug =
     (case TITLE_OVERRIDES slug of
        Some t \<Rightarrow> t
      | None \<Rightarrow> title (replace_char CHR ''_'' CHR '' '' (replace_char CHR ''-'' CHR '' '' slug)))"

subsection \<open>Values decoded from JSON\<close>

text \<open>
  What \<^verbatim>\<open>json.loads\<close> returns: \<^verbatim>\<open>None\<close>, a bool, an int, a float, a str, a list or
  a dict (its items in insertion order, the keys pairwise different). A float is kept as
  a mantissa and a binary exponent, or as one of the non-finite values the decoder accepts.
\<close>

datatype pyfloat = FloatFinite int int | FloatInf bool | FloatNaN

datatype json =
    JNull
  | JBool bool
  | JInt int
  | JFloat pyfloat
  | JStr string
  | JArr "json list"
  | JObj "(string \<times> json) list"

text \<open>The exceptions that escape the functions of the script.\<close>

datatype py_error = AttributeError | TypeError | KeyError | IndexError | ValueError

text \<open>Truth value of an object, as \<^verbatim>\<open>not x\<close> and \<^verbatim>\<open>if x:\<close> test it.\<close>

fun truthy :: "json \<Rightarrow> bool" where
  "truthy JNull = False"
| "truthy (JBool b) = b"
| "truthy (JInt i) = (i \<noteq> 0)"
| "truthy (JFloat (FloatFinite m e)) = (m \<noteq> 0)"
| "truthy (JFloat (FloatInf negative)) = True"
| "truthy (JFloat FloatNaN) = True"
| "truthy (JStr s) = (s \<noteq> [])"
| "truthy (JArr xs) = (xs \<noteq> [])"
| "truthy (JObj kvs) = (kvs \<noteq> [])"

text \<open>\<^verbatim>\<open>for r in x\<close>: a list yields its elements, a dict its keys, a str its characters;
  nothing else is iterable.\<close>

fun py_iter :: "json \<Rightarrow> py_error + json list" where
  "py_iter (JArr xs) = Inr xs"
| "py_iter (JObj kvs) = Inr (map (\<lambda>kv. JStr (fst kv)) kvs)"
| "py_iter (JStr s) = Inr (map (\<lambda>c. JStr [c]) s)"
| "py_iter x = Inl TypeError"

text \<open>\<^verbatim>\<open>len(x)\<close>\<close>

fun py_len :: "json \<Rightarrow> py_error + nat" where
  "py_len (JArr xs) = Inr (length xs)"
| "py_len (JObj kvs) = Inr (length kvs)"
| "py_len (JStr s) = Inr (length s)"
| "py_len x = Inl TypeError"

text \<open>\<^verbatim>\<open>x[i]\<close> for a literal index \<^verbatim>\<open>0\<close> or \<^verbatim>\<open>1\<close>. The keys of a decoded dict are
  strings, so an integer key is never found.\<close>

fun py_index :: "json \<Rightarrow> nat \<Rightarrow> py_error + json" where
  "py_index (JArr xs) i = (if i < length xs then Inr (xs ! i) else Inl IndexError)"
| "py_index (JStr s) i = (if i < length s then Inr (JStr [s ! i]) else Inl IndexError)"
| "py_index (JObj kvs) i = Inl KeyError"
| "py_index x i = Inl TypeError"

text \<open>\<^verbatim>\<open>r.get(key, default)\<close>: only a dict has the method.\<close>

fun dict_get :: "json \<Rightarrow> string \<Rightarrow> json \<Rightarrow> py_error + json" where
  "dict_get (JObj kvs) key fallback =
     (case map_of kvs key of Some v \<Rightarrow> Inr v | None \<Rightarrow> Inr fallback)"
| "dict_get x key fallback = Inl AttributeError"

text \<open>\<^verbatim>\<open>r.get(key, "").lower()\<close>: only a str has the method.\<close>

definition get_lower :: "json \<Rightarrow> string \<Rightarrow> py_error + string" where
  "get_lower r key =
     (case dict_get r key (JStr []) of
        Inl e \<Rightarrow> Inl e
      | Inr (JStr s) \<Rightarrow> Inr (lower s)
      | Inr v \<Rightarrow> Inl AttributeError)"

subsection \<open>The standard library\<close>

text \<open>
  Two library functions are parameters of the model: the JSON decoder (\<^verbatim>\<open>None\<close> when
  \<^verbatim>\<open>json.loads\<close> raises) and the text \<^verbatim>\<open>str.format\<close> writes for a value that is
  neither a str, an int, a bool nor \<^verbatim>\<open>None\<close>.
\<close>

record pylib =
  json_loads :: "bytes \<Rightarrow> json option"
  py_repr :: "json \<Rightarrow> string"

fun decimal :: "nat \<Rightarrow> string" where
  "decimal n =
     (if n < 10 then [''0123456789'' ! n]
      else decimal (n div 10) @ [''0123456789'' ! (n mod 10)])"

definition py_str :: "pylib \<Rightarrow> json \<Rightarrow> string" where
  "py_str lib v =
     (case v of
        JStr s \<Rightarrow> s
      | JNull \<Rightarrow> ''None''
      | JBool b \<Rightarrow> (if b then ''True'' else ''False'')
      | JInt i \<Rightarrow> (if i < 0 then ''-'' @ decimal (nat (- i)) else decimal (nat i))
      | _ \<Rightarrow> py_repr lib v)"

text \<open>\<^verbatim>\<open>urllib.parse.urlencode\<close> of a dict of strings: every key and value goes through
  \<^verbatim>\<open>quote_plus\<close>, which keeps letters, digits and \<^verbatim>\<open>_.-~\<close>, writes a space as
  \<^verbatim>\<open>+\<close> and every other byte as \<^verbatim>\<open>%XX\<close>.\<close>

definition always_safe :: "char \<Rightarrow> bool" where
  "always_safe c = (is_upper c \<or> is_lower c \<or> is_digit c \<or> c \<in> set ''_.-~'')"

definition percent :: "char \<Rightarrow> string" where
  "percent c =
     [CHR ''%'', ''0123456789ABCDEF'' ! ((of_char c :: nat) div 16),
      ''0123456789ABCDEF'' ! ((of_char c :: nat) mod 16)]"

definition quote_plus :: "string \<Rightarrow> string" where
  "quote_plus s =
     concat (map (\<lambda>c. if c = CHR '' '' then ''+''
                       else if always_safe c then [c] else percent c) s)"

fun join_amp :: "string list \<Rightarrow> string" where
  "join_amp [] = []"
| "join_amp [x] = x"
| "join_amp (x # y # zs) = x @ ''&'' @ join_amp (y # zs)"

definition urlencode :: "(string \<times> string) list \<Rightarrow> string" where
  "urlencode query = join_amp (map (\<lambda>kv. quote_plus (fst kv) @ ''='' @ quote_plus (snd kv)) query)"

text \<open>
  \<^verbatim>\<open>urllib.request.Request(url, headers=HEADERS)\<close> stands before the \<^verbatim>\<open>try\<close> of
  \<^verbatim>\<open>http_get\<close>. Its constructor unwraps the URL, cuts the fragment and raises
  \<^verbatim>\<open>ValueError("unknown url type")\<close> unless the rest starts with a scheme: one or more
  characters other than \<^verbatim>\<open>/\<close> and \<^verbatim>\<open>:\<close>, then a colon.
\<close>

definition is_space :: "char \<Rightarrow> bool" where
  "is_space c = (c \<in> set [CHR 0x09, CHR 0x0A, CHR 0x0B, CHR 0x0C, CHR 0x0D,
                           CHR 0x1C, CHR 0x1D, CHR 0x1E, CHR 0x1F, CHR 0x20])"

definition strip :: "string \<Rightarrow> string" where
  "strip s = rev (dropWhile is_space (rev (dropWhile is_space s)))"

definition unwrap :: "string \<Rightarrow> string" where
  "unwrap url0 =
     (let url1 = strip url0;
          url2 = (if take 1 url1 = ''<'' \<and> take 1 (rev url1) = ''>''
                  then strip (butlast (drop 1 url1)) else url1)
      in if take 4 url2 = ''URL:'' then strip (drop 4 url2) else url2)"

text \<open>The first component of \<^verbatim>\<open>url.rpartition('#')\<close> when there is a \<^verbatim>\<open>#\<close>, else the URL.\<close>

definition splittag_path :: "string \<Rightarrow> string" where
  "splittag_path url =
     (if CHR ''#'' \<in> set url then rev (drop 1 (dropWhile (\<lambda>c. c \<noteq> CHR ''#'') (rev url)))
      else url)"

definition has_url_type :: "string \<Rightarrow> bool" where
  "has_url_type url =
     (let scheme = takeWhile (\<lambda>c. c \<noteq> CHR ''/'' \<and> c \<noteq> CHR '':'') url
      in scheme \<noteq> [] \<and> take 1 (drop (length scheme) url) = '':'')"

definition request_ok :: "string \<Rightarrow> bool" where
  "request_ok url = has_url_type (splittag_path (unwrap url))"

subsection \<open>The world: network, storage, clock\<close>

text \<open>
  A request is a URL and its timeout in seconds. The network answers a request with a body
  or with nothing (any exception inside the \<^verbatim>\<open>try\<close> of \<^verbatim>\<open>http_get\<close>: refused
  connection, HTTP error status, timeout); the answer may depend on the requests made
  before. The world records the requests issued so far, the files of the games directory
  (by file name) and how many times the script slept one second.
\<close>

type_synonym request = "string \<times> nat"

type_synonym net = "request list \<Rightarrow> request \<Rightarrow> bytes option"

record world =
  files :: "string \<rightharpoonup> bytes"
  calls :: "request list"
  naps :: nat

definition http_get :: "net \<Rightarrow> string \<Rightarrow> nat \<Rightarrow> world \<Rightarrow> py_error + (bytes option \<times> world)" where
  "http_get net url timeout w =
     (if \<not> request_ok url then Inl ValueError
      else Inr (net (calls w) (url, timeout), w\<lparr>calls := calls w @ [(url, timeout)]\<rparr>))"

subsection \<open>Metadata resolver\<close>

definition FLASHPOINT_API :: string where
  "FLASHPOINT_API = ''https://db-api.unstable.life''"

text \<open>The three loops of \<^verbatim>\<open>search_flashpoint\<close>. Python's \<^verbatim>\<open>and\<close> reads the platform
  only when the title is equal.\<close>

fun exact_flash :: "string \<Rightarrow> json list \<Rightarrow> py_error + json option" where
  "exact_flash title_lower [] = Inr None"
| "exact_flash title_lower (r # rs) =
     (case get_lower r ''title'' of
        Inl e \<Rightarrow> Inl e
      | Inr t \<Rightarrow>
          if t = title_lower then
            (case get_lower r ''platform'' of
               Inl e \<Rightarrow> Inl e
             | Inr p \<Rightarrow> if contains ''flash'' p then Inr (Some r) else exact_flash title_lower rs)
          else exact_flash title_lower rs)"

fun exact_title :: "string \<Rightarrow> json list \<Rightarrow> py_error + json option" where
  "exact_title title_lower [] = Inr None"
| "exact_title title_lower (r # rs) =
     (case get_lower r ''title'' of
        Inl e \<Rightarrow> Inl e
      | Inr t \<Rightarrow> if t = title_lower then Inr (Some r) else exact_title title_lower rs)"

fun any_flash :: "json list \<Rightarrow> py_error + json option" where
  "any_flash [] = Inr None"
| "any_flash (r # rs) =
     (case get_lower r ''platform'' of
        Inl e \<Rightarrow> Inl e
      | Inr p \<Rightarrow> if contains ''flash'' p then Inr (Some r) else any_flash rs)"

text \<open>The selection among the decoded results, from \<^verbatim>\<open>title_lower = title.lower()\<close>
  to \<^verbatim>\<open>return results[0]\<close>.\<close>

definition select_match :: "string \<Rightarrow> json \<Rightarrow> py_error + json" where
  "select_match title_lower results =
     (case py_iter results of
        Inl e \<Rightarrow> Inl e
      | Inr rs \<Rightarrow>
          (case exact_flash title_lower rs of
             Inl e \<Rightarrow> Inl e
           | Inr (Some r) \<Rightarrow> Inr r
           | Inr None \<Rightarrow>
               (case exact_title title_lower rs of
                  Inl e \<Rightarrow> Inl e
                | Inr (Some r) \<Rightarrow> Inr r
                | Inr None \<Rightarrow>
                    (case any_flash rs of
                       Inl e \<Rightarrow> Inl e
                     | Inr (Some r) \<Rightarrow> Inr r
                     | Inr None \<Rightarrow> py_index results 0))))"

definition search_url :: "string \<Rightarrow> string" where
  "search_url title_arg =
     FLASHPOINT_API @ ''/search?'' @
     urlencode [(''title'', title_arg), (''fields'', ''id,title,platform,launchCommand''),
                (''limit'', ''15'')]"

definition search_flashpoint ::
  "pylib \<Rightarrow> net \<Rightarrow> string \<Rightarrow> world \<Rightarrow> py_error + (json option \<times> world)" where
  "search_flashpoint lib net title_arg w =
     (case http_get net (search_url title_arg) 20 w of
        Inl e \<Rightarrow> Inl e
      | Inr (data, w1) \<Rightarrow>
          (case data of
             None \<Rightarrow> Inr (None, w1)
           | Some body \<Rightarrow>
               if body = [] then Inr (None, w1)
               else
                 (case json_loads lib body of
                    None \<Rightarrow> Inr (None, w1)
                  | Some results \<Rightarrow>
                      if \<not> truthy results then Inr (None, w1)
                      else
                        (case select_match (lower title_arg) results of
                           Inl e \<Rightarrow> Inl e
                         | Inr r \<Rightarrow> Inr (Some r, w1)))))"

subsection \<open>Retrieval strategy\<close>

definition WAYBACK_CDX :: string where
  "WAYBACK_CDX = ''https://web.archive.org/cdx/search/cdx''"

text \<open>\<^verbatim>\<open>WAYBACK_RAW.format(timestamp=timestamp, url=url)\<close>\<close>

definition WAYBACK_RAW :: "string \<Rightarrow> string \<Rightarrow> string" where
  "WAYBACK_RAW timestamp url = ''https://web.archive.org/web/'' @ timestamp @ ''oe_/'' @ url"

definition try_direct :: "net \<Rightarrow> json \<Rightarrow> world \<Rightarrow> py_error + (bytes option \<times> world)" where
  "try_direct net url w =
     (if \<not> truthy url then Inr (None, w)
      else
        (case url of
           JStr s \<Rightarrow>
             if startswith s ''http://localflash'' then Inr (None, w)
             else
               (case http_get net s 15 w of
                  Inl e \<Rightarrow> Inl e
                | Inr (data, w1) \<Rightarrow> if is_valid_swf data then Inr (data, w1) else Inr (None, w1))
         | _ \<Rightarrow> Inl AttributeError))"

definition cdx_url :: "string \<Rightarrow> string" where
  "cdx_url url =
     WAYBACK_CDX @ ''?'' @
     urlencode [(''url'', url), (''output'', ''json''), (''limit'', ''1''),
                (''fl'', ''timestamp,statuscode''), (''filter'', ''statuscode:200'')]"

definition try_wayback ::
  "pylib \<Rightarrow> net \<Rightarrow> json \<Rightarrow> world \<Rightarrow> py_error + (bytes option \<times> world)" where
  "try_wayback lib net url w =
     (if \<not> truthy url then Inr (None, w)
      else
        (case url of
           JStr s \<Rightarrow>
             if startswith s ''http://localflash'' then Inr (None, w)
             else
               (case http_get net (cdx_url s) 20 w of
                  Inl e \<Rightarrow> Inl e
                | Inr (cdx_data, w1) \<Rightarrow>
                    (case cdx_data of
                       None \<Rightarrow> Inr (None, w1)
                     | Some body \<Rightarrow>
                         if body = [] then Inr (None, w1)
                         else
                           (case json_loads lib body of
                              None \<Rightarrow> Inr (None, w1)
                            | Some rows \<Rightarrow>
                                (case py_len rows of
                                   Inl e \<Rightarrow> Inl e
                                 | Inr n \<Rightarrow>
                                     if n < 2 then Inr (None, w1)
                                     else
                                       (case py_index rows 1 of
                                          Inl e \<Rightarrow> Inl e
                                        | Inr row \<Rightarrow>
                                            (case py_index row 0 of
                                               Inl e \<Rightarrow> Inl e
                                             | Inr timestamp \<Rightarrow>
                                                 (case http_get net
                                                         (WAYBACK_RAW (py_str lib timestamp) s) 30 w1 of
                                                    Inl e \<Rightarrow> Inl e
                                                  | Inr (data, w2) \<Rightarrow>
                                                      if is_valid_swf data then Inr (data, w2)
                                                      else Inr (None, w2))))))))
         | _ \<Rightarrow> Inl AttributeError))"

subsection \<open>Batch orchestrator\<close>

datatype outcome = OK | SKIP | FAIL

text \<open>The file of a slug inside the games directory.\<close>

definition out_path :: "string \<Rightarrow> string" where
  "out_path slug = slug @ ''.swf''"

text \<open>\<^verbatim>\<open>if swf:\<close> on what a retrieval step returned.\<close>

definition nonempty :: "bytes option \<Rightarrow> bool" where
  "nonempty swf = (case swf of None \<Rightarrow> False | Some b \<Rightarrow> b \<noteq> [])"

text \<open>
  \<^verbatim>\<open>fetch_game(slug)\<close>. The progress lines it prints are left out; the two
  \<^verbatim>\<open>match.get\<close> calls that only feed them raise exactly when the
  \<^verbatim>\<open>match.get("launchCommand", "")\<close> kept here does. Writing the file is taken to
  succeed.
\<close>

definition fetch_game :: "pylib \<Rightarrow> net \<Rightarrow> string \<Rightarrow> world \<Rightarrow> py_error + (outcome \<times> world)" where
  "fetch_game lib net slug w =
     (if files w (out_path slug) \<noteq> None then Inr (SKIP, w)
      else
        (case search_flashpoint lib net (slug_to_title slug) w of
           Inl e \<Rightarrow> Inl e
         | Inr (found, w1) \<Rightarrow>
             (case found of
                None \<Rightarrow> Inr (FAIL, w1)
              | Some match \<Rightarrow>
                  if \<not> truthy match then Inr (FAIL, w1)
                  else
                    (case dict_get match ''launchCommand'' (JStr []) of
                       Inl e \<Rightarrow> Inl e
                     | Inr launch_cmd \<Rightarrow>
                         (case try_direct net launch_cmd w1 of
                            Inl e \<Rightarrow> Inl e
                          | Inr (swf1, w2) \<Rightarrow>
                              (case (if \<not> nonempty swf1 then try_wayback lib net launch_cmd w2
                                     else Inr (swf1, w2)) of
                                 Inl e \<Rightarrow> Inl e
                               | Inr (swf, w3) \<Rightarrow>
                                   (case swf of
                                      None \<Rightarrow> Inr (FAIL, w3)
                                    | Some b \<Rightarrow>
                                        if b = [] then Inr (FAIL, w3)
                                        else Inr (OK, w3\<lparr>files := (files w3)(out_path slug \<mapsto> b)\<rparr>))))))))"

text \<open>The accumulator \<^verbatim>\<open>results = {"ok": [], "skip": [], "fail": []}\<close> of \<^verbatim>\<open>main\<close>.\<close>

record results =
  ok :: "string list"
  skip :: "string list"
  fail :: "string list"

definition no_results :: results where
  "no_results = \<lparr>ok = [], skip = [], fail = []\<rparr>"

text \<open>\<^verbatim>\<open>results[outcome].append(slug)\<close>\<close>

fun record_outcome :: "results \<Rightarrow> outcome \<Rightarrow> string \<Rightarrow> results" where
  "record_outcome res OK slug = res\<lparr>ok := ok res @ [slug]\<rparr>"
| "record_outcome res SKIP slug = res\<lparr>skip := skip res @ [slug]\<rparr>"
| "record_outcome res FAIL slug = res\<lparr>fail := fail res @ [slug]\<rparr>"

text \<open>\<^verbatim>\<open>time.sleep(1.0)\<close>\<close>

definition sleep :: "world \<Rightarrow> world" where
  "sleep w = w\<lparr>naps := naps w + 1\<rparr>"

text \<open>The loop of \<^verbatim>\<open>main\<close> over the slugs that are left.\<close>

fun main_loop ::
  "pylib \<Rightarrow> net \<Rightarrow> string list \<Rightarrow> results \<Rightarrow> world \<Rightarrow> py_error + (results \<times> world)" where
  "main_loop lib net [] res w = Inr (res, w)"
| "main_loop lib net (slug # rest) res w =
     (case fetch_game lib net slug w of
        Inl e \<Rightarrow> Inl e
      | Inr (outcome, w1) \<Rightarrow>
          main_loop lib net rest (record_outcome res outcome slug)
            (if outcome \<noteq> SKIP then sleep w1 else w1))"

text \<open>\<^verbatim>\<open>main\<close> over a list of slugs; the script runs it on its constant \<^verbatim>\<open>GAMES\<close>.\<close>

definition run :: "pylib \<Rightarrow> net \<Rightarrow> string list \<Rightarrow> world \<Rightarrow> py_error + (results \<times> world)" where
  "run lib net slugs w = main_loop lib net slugs no_results w"

definition GAMES :: "string list" where
  "GAMES =
   [''14303_vrdefendery3k'', ''1048_castle'', ''adrenaline'', ''alien-hominid'',
    ''alpha-bravo-charlie'', ''archer'', ''asteroids'', ''avalanche'',
    ''bloons-tower-defense-3'', ''bloons-tower-defense-4'', ''bot-arena-2'', ''bowman'',
    ''bow-master-prelude'', ''bubble-tanks-2'', ''bubble-tanks'', ''bubble-trouble'',
    ''bunny-invasion-2'', ''copter'', ''cubefield'', ''curveball'', ''crush-the-castle'',
    ''d-fence-2'', ''defend-your-castle'', ''demonic-defence-3'', ''dolphin-olympics-2'',
    ''double-wires'', ''fancy-pants-adventure-2'', ''fancy-pants-adventure'', ''feudalism-2'',
    ''fishy'', ''gem-tower-defense'', ''gravity-game'', ''gunmaster-jungle'', ''helicopter'',
    ''hot-air-baloons'', ''interactive-buddy'', ''line-rider-beta-2'', ''the-last-stand-2'',
    ''manhattan-project'', ''madness-accelerant'', ''max-dirtbike'', ''me2d-game'',
    ''missile-game-3d'', ''n-ninja'', ''pet-protector-2'', ''phage-wars'', ''portal'',
    ''raiden-x'', ''realm-of-the-mad-god'', ''run'', ''sonny-2'', ''sonny'', ''stairfall'',
    ''stick-strike'', ''super-mario-flash'', ''super-smash-flash'', ''tanks'', ''trampoline'']"

definition main :: "pylib \<Rightarrow> net \<Rightarrow> world \<Rightarrow> py_error + (results \<times> world)" where
  "main lib net w = run lib net GAMES w"

text \<open>The three counts of the summary, and the lines printed under
  \<^verbatim>\<open>Failed games (add .swf files manually):\<close> (none when nothing failed).\<close>

definition counts :: "results \<Rightarrow> nat \<times> nat \<times> nat" where
  "counts res = (length (ok res), length (skip res), length (fail res))"

definition failure_list :: "results \<Rightarrow> string list" where
  "failure_list res =
     (if fail res \<noteq> [] then map (\<lambda>s. ''  games/'' @ s @ ''.swf'') (fail res) else [])"

subsection \<open>Notions of the specification\<close>




text \<open>
  The selection policy in the words of the specification. A catalog record is a dict whose
  title and platform, when present, are strings. The rules in priority order: exact
  title and Flash platform, exact title, Flash platform, any record. The record selected
  is the first one that matches the first rule some record matches.
\<close>

definition text_field :: "json \<Rightarrow> string \<Rightarrow> string option" where
  "text_field r key =
     (case r of
        JObj kvs \<Rightarrow>
          (case map_of kvs key of
             None \<Rightarrow> Some []
           | Some (JStr s) \<Rightarrow> Some s
           | Some v \<Rightarrow> None)
      | _ \<Rightarrow> None)"

definition is_record :: "json \<Rightarrow> bool" where
  "is_record r = (text_field r ''title'' \<noteq> None \<and> text_field r ''platform'' \<noteq> None)"

definition title_matches :: "string \<Rightarrow> json \<Rightarrow> bool" where
  "title_matches title_lower r =
     (case text_field r ''title'' of Some t \<Rightarrow> lower t = title_lower | None \<Rightarrow> False)"

definition is_flash :: "json \<Rightarrow> bool" where
  "is_flash r =
     (case text_field r ''platform'' of Some p \<Rightarrow> contains ''flash'' (lower p) | None \<Rightarrow> False)"

definition rules :: "string \<Rightarrow> (json \<Rightarrow> bool) list" where
  "rules title_lower =
     [\<lambda>r. title_matches title_lower r \<and> is_flash r, title_matches title_lower, is_flash,
      \<lambda>r. True]"

definition resolve_spec :: "string \<Rightarrow> json list \<Rightarrow> json option" where
  "resolve_spec title_lower rs =
     (case find (\<lambda>rule. list_ex rule rs) (rules title_lower) of
        Some rule \<Rightarrow> find rule rs
      | None \<Rightarrow> None)"

subsection \<open>Sample environments\<close>

text \<open>
  For the examples: a world with no file and no request made, a network that answers from
  a table of URLs (and fails on every other URL), and a decoder that knows the bodies of
  the examples, on each of which it returns what \<^verbatim>\<open>json.loads\<close> returns.
\<close>

definition fresh :: world where
  "fresh = \<lparr>files = Map.empty, calls = [], naps = 0\<rparr>"

definition table_net :: "(string \<times> bytes) list \<Rightarrow> net" where
  "table_net tbl history req = map_of tbl (fst req)"

definition foo_web :: json where
  "foo_web = JObj [(''title'', JStr ''Foo''), (''platform'', JStr ''Web'')]"

definition foo_flash :: json where
  "foo_flash = JObj [(''title'', JStr ''Foo''), (''platform'', JStr ''Flash Player'')]"

(*DEFS-END*)

section \<open>Properties\<close>

subsection \<open>Binary validator\<close>

text \<open>
  C3, as the code has it: a buffer of at least 8 bytes whose first 3 bytes are
  \<^verbatim>\<open>FWS\<close>, \<^verbatim>\<open>CWS\<close> or \<^verbatim>\<open>ZWS\<close> is valid; a buffer shorter than 8 bytes, a buffer
  with any other 3-byte prefix and an absent buffer are invalid.
\<close>

theorem is_valid_swf_header:
  "(8 \<le> length b \<and> take 3 b \<in> {''FWS'', ''CWS'', ''ZWS''} \<longrightarrow> is_valid_swf (Some b)) \<and>
   (length b < 8 \<or> take 3 b \<notin> {''FWS'', ''CWS'', ''ZWS''} \<longrightarrow> \<not> is_valid_swf (Some b)) \<and>
   \<not> is_valid_swf None"
  by (auto simp: is_valid_swf_def)

theorem is_valid_swf_header_witness:
  "is_valid_swf (Some ''FWS12345'') \<and> \<not> is_valid_swf (Some ''<html>404</html>'') \<and>
   \<not> is_valid_swf (Some ''CWS1234'')"
  using is_valid_swf_header [of "''FWS12345''"] is_valid_swf_header [of "''<html>404</html>''"]
    is_valid_swf_header [of "''CWS1234''"]
  by simp

text \<open>
  C3 as the claim words it fails: the 5-byte buffer \<^verbatim>\<open>FWSab\<close> starts with a recognised
  signature and is rejected by the length guard.
\<close>

theorem is_valid_swf_short_counterexample:
  "take 3 ''FWSab'' = ''FWS'' \<and> \<not> is_valid_swf (Some ''FWSab'')"
  by (simp add: is_valid_swf_def)

subsection \<open>Identifier normalizer\<close>













end
